theory Spec2Isabelle
  imports Main "HOL-Library.Sublist"
begin

section \<open>Values and errors\<close>

text \<open>
  The application is Python 2. The values that travel through the request dictionaries
  are \<^verbatim>\<open>None\<close>, byte strings and lists of byte strings (what \<^verbatim>\<open>parse_qs\<close> and
  \<^verbatim>\<open>parse_cookies\<close> build). An exception is a value of \<open>error\<close>, returned on the left
  of a sum.
\<close>

datatype pyval = VNone | VStr string | VList "string list"

datatype error = KeyError | TypeError | ValueError

text \<open>Python's truth value: \<^verbatim>\<open>None\<close>, the empty string and the empty list are false.\<close>

fun truthy :: "pyval \<Rightarrow> bool" where
  "truthy VNone = False"
| "truthy (VStr s) = (s \<noteq> [])"
| "truthy (VList xs) = (xs \<noteq> [])"

section \<open>Utilities\<close>

text \<open>\<^verbatim>\<open>return "200 OK" if code == 200 else "404 Not Found"\<close>\<close>

definition http_status :: "int \<Rightarrow> string" where
  "http_status code = (if code = 200 then ''200 OK'' else ''404 Not Found'')"

text \<open>
  \<^verbatim>\<open>val = dict_.get(key); if type(val) in (list, tuple) and len(val) > 0: val = val[0]\<close>.
  A missing key gives \<^verbatim>\<open>None\<close>, a non-empty list its first element, and every other
  value (the empty list too) is returned as it is.
\<close>

definition take_one_or_None :: "(string \<rightharpoonup> pyval) \<Rightarrow> string \<Rightarrow> pyval" where
  "take_one_or_None d key =
     (case d key of
        None \<Rightarrow> VNone
      | Some (VList (x # xs)) \<Rightarrow> VStr x
      | Some val \<Rightarrow> val)"

section \<open>Model\<close>

subsection \<open>The key-value store\<close>

text \<open>
  Modelled from the spec: the persistent store is Python's \<^verbatim>\<open>shelve\<close>, a library that
  is not part of the repository. By section 4.1 of the specification it maps string keys
  to values, with \<^verbatim>\<open>get\<close>, \<^verbatim>\<open>set\<close>, \<^verbatim>\<open>contains\<close> and \<^verbatim>\<open>items\<close>, and every
  write is flushed at once, so \<^verbatim>\<open>sync\<close> changes nothing in the model. A lookup with
  \<^verbatim>\<open>None\<close> finds nothing (the page \<^verbatim>\<open>/text\<close> without a title relies on it), and a
  list is not accepted as a key.
\<close>

definition shelf_get :: "(string \<rightharpoonup> 'v) \<Rightarrow> pyval \<Rightarrow> error + 'v option" where
  "shelf_get db key =
     (case key of
        VStr s \<Rightarrow> Inr (db s)
      | VNone \<Rightarrow> Inr None
      | VList xs \<Rightarrow> Inl TypeError)"

subsection \<open>Documents\<close>

record TextModel =
  title :: string
  content :: string

text \<open>
  The document store holds the content string under the title. It is an association
  list, because \<^verbatim>\<open>get_all\<close> iterates over it; the order of the list stands for the
  order in which the store iterates, and a new title is placed at the end.
\<close>

type_synonym documents = "(string \<times> string) list"

text \<open>
  \<^verbatim>\<open>content = self._db.get(title); return TextModel(title, content) if content else None\<close>.
  The keys of the store are strings, so a title under which a content is found is a
  string; the stored content is tested for truth, and the empty string is false.
\<close>

definition get_by_title :: "documents \<Rightarrow> pyval \<Rightarrow> error + TextModel option" where
  "get_by_title db t =
     (case shelf_get (map_of db) t of
        Inl e \<Rightarrow> Inl e
      | Inr None \<Rightarrow> Inr None
      | Inr (Some c) \<Rightarrow>
          (case t of
             VStr s \<Rightarrow> if c \<noteq> [] then Inr (Some \<lparr>title = s, content = c\<rparr>) else Inr None
           | _ \<Rightarrow> Inr None))"

text \<open>\<^verbatim>\<open>[TextModel(title, content) for title, content in self._db.items()]\<close>\<close>

definition get_all :: "documents \<Rightarrow> TextModel list" where
  "get_all db = map (\<lambda>(t, c). \<lparr>title = t, content = c\<rparr>) db"

text \<open>
  \<^verbatim>\<open>if title in self._db: return False\<close>, then
  \<^verbatim>\<open>self._db[title] = content; self._db.sync(); return True\<close>.
  The result is the returned flag and the store after the call.
\<close>

definition create :: "documents \<Rightarrow> string \<Rightarrow> string \<Rightarrow> bool \<times> documents" where
  "create db t c =
     (if map_of db t \<noteq> None then (False, db)
      else (True, db @ [(t, c)]))"

text \<open>
  \<^verbatim>\<open>if title not in self._db: return False\<close>, then
  \<^verbatim>\<open>del self._db[title]; self._db.sync(); return True\<close>.
\<close>

definition delete :: "documents \<Rightarrow> string \<Rightarrow> bool \<times> documents" where
  "delete db t =
     (if map_of db t = None then (False, db)
      else (True, filter (\<lambda>(k, c). k \<noteq> t) db))"

subsection \<open>Sessions\<close>

text \<open>
  \<^verbatim>\<open>self.session_id = str(uuid.uuid4()); self.amount_of_viewed_pages = 0\<close>.
  The identifier that \<^verbatim>\<open>uuid4\<close> draws is an input of the model.
\<close>

record SessionModel =
  session_id :: string
  amount_of_viewed_pages :: int

definition SessionModel_init :: "string \<Rightarrow> SessionModel" where
  "SessionModel_init uuid4 = \<lparr>session_id = uuid4, amount_of_viewed_pages = 0\<rparr>"

text \<open>
  The session store holds a copy of the session under its identifier (the store pickles
  what is written to it). A stored session is an object, hence true, so
  \<^verbatim>\<open>if not session\<close> holds exactly when the lookup found nothing.
\<close>

type_synonym sessions = "string \<rightharpoonup> SessionModel"

definition get_or_create :: "string \<Rightarrow> sessions \<Rightarrow> pyval \<Rightarrow> error + SessionModel \<times> sessions" where
  "get_or_create uuid4 db sid =
     (case shelf_get db sid of
        Inl e \<Rightarrow> Inl e
      | Inr (Some session) \<Rightarrow> Inr (session, db)
      | Inr None \<Rightarrow>
          (let session = SessionModel_init uuid4
           in Inr (session, db(session_id session \<mapsto> session))))"

text \<open>\<^verbatim>\<open>self._db[session.session_id] = session; self._db.sync()\<close>\<close>

definition update :: "sessions \<Rightarrow> SessionModel \<Rightarrow> sessions" where
  "update db session = db(session_id session \<mapsto> session)"

section \<open>Views\<close>

text \<open>\<^verbatim>\<open>sep.join(xs)\<close>\<close>

fun join :: "string \<Rightarrow> string list \<Rightarrow> string" where
  "join sep [] = []"
| "join sep [x] = x"
| "join sep (x # y # ys) = x @ sep @ join sep (y # ys)"

definition NL :: string where
  "NL = [CHR 0x0A]"

text \<open>
  The context of the index page is the dictionary that \<open>index\<close> builds, with the keys
  \<^verbatim>\<open>all\<close>, \<^verbatim>\<open>current\<close> and \<^verbatim>\<open>error\<close>; \<^verbatim>\<open>render\<close> stores two more keys in it,
  \<^verbatim>\<open>titles\<close> and \<^verbatim>\<open>content\<close>, which are absent (\<open>None\<close>) before.
\<close>

record index_context =
  ctx_all :: "TextModel list"
  ctx_current :: "TextModel option"
  ctx_error :: string
  ctx_titles :: "string option"
  ctx_content :: "string option"

text \<open>The template \<^verbatim>\<open>t\<close> of the index page, with its three fields filled in.\<close>

definition index_template :: "string \<Rightarrow> string \<Rightarrow> string \<Rightarrow> string" where
  \<open>index_template error_html content_html titles_html = join NL
     [ '''',
       ''        <form method="GET">'',
       ''            <input type=text name=title placeholder="Text title" />'',
       ''            <input type=submit value=read />'',
       ''        </form>'',
       ''        <form method="GET" action="/text/add">'',
       ''            <input type=text name=title placeholder="Text title" /> <br>'',
       ''            <textarea name=content placeholder="Text content!" ></textarea> <br>'',
       ''            <input type=submit value=write/rewrite />'',
       ''        </form>'',
       ''        <div>'' @ error_html @ ''</div>'',
       ''        <div>'' @ content_html @ ''</div>'',
       ''        <ul>'' @ titles_html @ ''</ul>'',
       ''        '' ]\<close>

text \<open>
  \<^verbatim>\<open>TextIndexView.render\<close>. It writes \<^verbatim>\<open>context["titles"]\<close>, \<^verbatim>\<open>context["content"]\<close>
  and, when the error is not empty, \<^verbatim>\<open>context["error"]\<close>, then formats the template.
  The result is the HTML and the context as the call leaves it.
\<close>

definition TextIndexView_render :: "index_context \<Rightarrow> string \<times> index_context" where
  \<open>TextIndexView_render context =
     (let titles_html = join NL (map (\<lambda>text. ''<li>'' @ title text @ ''</li>'') (ctx_all context));
          content_html =
            (case ctx_current context of
               Some current \<Rightarrow>
                 NL @ ''            <h1>'' @ title current @ ''</h1>'' @ NL
                 @ ''            '' @ content current @ NL
                 @ ''            ''
             | None \<Rightarrow> ''What do you want read?'');
          error_html =
            (if ctx_error context \<noteq> []
             then NL @ ''            <h1 style="color:red;">'' @ ctx_error context @ ''</h1>'' @ NL
                  @ ''            ''
             else ctx_error context)
      in (index_template error_html content_html titles_html,
          context\<lparr>ctx_titles := Some titles_html, ctx_content := Some content_html,
                  ctx_error := error_html\<rparr>))\<close>

text \<open>\<^verbatim>\<open>RedirectView.render\<close> returns a constant and does not touch its context.\<close>

definition RedirectView_render :: "'c \<Rightarrow> string \<times> 'c" where
  \<open>RedirectView_render context = (''<meta http-equiv="refresh" content="0; url=/text" />'', context)\<close>

section \<open>Controller and router\<close>

text \<open>
  \<^verbatim>\<open>request_get_data\<close> is the dictionary of the query string, in which \<open>application\<close>
  stores the session object under the reserved key \<^verbatim>\<open>SESSION\<close>. The model keeps that
  entry (absent, or a session) apart from the entries of the query string.
\<close>

record request_get_data =
  params :: "string \<rightharpoonup> pyval"
  SESSION :: "SessionModel option"

text \<open>The context that \<open>add\<close> hands to its view: the keys \<^verbatim>\<open>title\<close>, \<^verbatim>\<open>content\<close>, \<^verbatim>\<open>error\<close>.\<close>

record add_context =
  form_title :: pyval
  form_content :: pyval
  form_error :: "string option"

type_synonym response = "int \<times> string"

text \<open>
  A handler reads and changes the document store and the request dictionary (the session
  object in it), so it takes both and returns them with the response.
\<close>

type_synonym handler =
  "documents \<Rightarrow> request_get_data \<Rightarrow> error + response \<times> documents \<times> request_get_data"

text \<open>
  \<^verbatim>\<open>TextController.index\<close>, with the controller's \<^verbatim>\<open>index_view\<close> as first argument.
  \<^verbatim>\<open>request_get_data["SESSION"]\<close> raises \<^verbatim>\<open>KeyError\<close> when the key is absent. A found
  document is an object, hence true.
\<close>

definition index :: "(index_context \<Rightarrow> string \<times> index_context) \<Rightarrow> handler" where
  "index index_view db request =
     (let t = take_one_or_None (params request) ''title'' in
      case SESSION request of
        None \<Rightarrow> Inl KeyError
      | Some session \<Rightarrow>
          (case (if amount_of_viewed_pages session \<le> 3 then get_by_title db t else Inr None) of
             Inl e \<Rightarrow> Inl e
           | Inr current_text \<Rightarrow>
               (let all_texts = get_all db;
                    context =
                      \<lparr>ctx_all = all_texts, ctx_current = current_text,
                       ctx_error = (if amount_of_viewed_pages session > 3
                                    then ''Too many articles reviewed.'' else ''''),
                       ctx_titles = None, ctx_content = None\<rparr>;
                    request' =
                      (if current_text \<noteq> None
                       then request\<lparr>SESSION :=
                              Some (session\<lparr>amount_of_viewed_pages :=
                                             amount_of_viewed_pages session + 1\<rparr>)\<rparr>
                       else request)
                in Inr ((200, fst (index_view context)), db, request'))))"

text \<open>
  \<^verbatim>\<open>TextController.add\<close>, with the controller's \<^verbatim>\<open>add_view\<close> as first argument. A
  title and a content that are true are strings here, since \<open>take_one_or_None\<close> returns
  nothing else that is true; the last case is there for totality.
\<close>

definition add :: "(add_context \<Rightarrow> string \<times> add_context) \<Rightarrow> handler" where
  "add add_view db request =
     (let t = take_one_or_None (params request) ''title'';
          c = take_one_or_None (params request) ''content''
      in if \<not> truthy t \<or> \<not> truthy c
         then Inr ((200, fst (add_view \<lparr>form_title = t, form_content = c,
                                         form_error = Some ''Need fill the form fields.''\<rparr>)),
                   db, request)
         else (case (t, c) of
                 (VStr ts, VStr cs) \<Rightarrow>
                   (let (is_created, db') = create db ts cs;
                        error = (if \<not> is_created then Some ''Title already exist.'' else None)
                    in Inr ((200, fst (add_view \<lparr>form_title = t, form_content = c,
                                                   form_error = error\<rparr>)),
                            db', request))
               | _ \<Rightarrow> Inl TypeError))"

text \<open>\<^verbatim>\<open>Router\<close>: \<^verbatim>\<open>_paths\<close> is a dictionary from the path to the handler.\<close>

type_synonym paths = "string \<rightharpoonup> handler"

definition default_response :: handler where
  "default_response db request = Inr ((404, ''Nooo 404!''), db, request)"

definition route :: "paths \<Rightarrow> string \<Rightarrow> handler" where
  "route paths request_path db request =
     (case paths request_path of
        Some callback \<Rightarrow> callback db request
      | None \<Rightarrow> default_response db request)"

definition register :: "paths \<Rightarrow> string \<Rightarrow> handler \<Rightarrow> paths" where
  "register paths path callback = paths(path \<mapsto> callback)"

text \<open>
  The wiring of the module: the controller gets \<open>TextIndexView\<close> and \<open>RedirectView\<close>, and
  three paths are registered.
\<close>

definition router :: paths where
  "router =
     register
       (register
          (register Map.empty ''/'' (\<lambda>db x. Inr ((200, ''Index HI!''), db, x)))
          ''/text'' (index TextIndexView_render))
       ''/text/add'' (add RedirectView_render)"

section \<open>The WSGI entry point\<close>

text \<open>
  \<^verbatim>\<open>s.split(sep)\<close> for a separator of one character: the pieces between the
  occurrences of the separator, so the result has one piece more than there are
  occurrences and is never empty (the last case is there for totality).
\<close>

fun py_split :: "char \<Rightarrow> string \<Rightarrow> string list" where
  "py_split sep [] = [[]]"
| "py_split sep (x # xs) =
     (if x = sep then [] # py_split sep xs
      else (case py_split sep xs of
              piece # pieces \<Rightarrow> (x # piece) # pieces
            | [] \<Rightarrow> [[x]]))"

text \<open>
  \<^verbatim>\<open>s.strip()\<close> removes the white space at both ends: space, tab, line feed, carriage
  return, vertical tab and form feed.
\<close>

definition py_isspace :: "char \<Rightarrow> bool" where
  "py_isspace c = (c \<in> set [CHR 0x20, CHR 0x09, CHR 0x0A, CHR 0x0D, CHR 0x0B, CHR 0x0C])"

definition py_strip :: "string \<Rightarrow> string" where
  "py_strip s = rev (dropWhile py_isspace (rev (dropWhile py_isspace s)))"

text \<open>
  \<^verbatim>\<open>dict(pairs)\<close> on a list of lists: every element must have exactly two items, the
  key and the value, or \<^verbatim>\<open>ValueError\<close> is raised; a later pair replaces an earlier one
  with the same key. The first argument is the dictionary built so far.
\<close>

fun py_dict :: "(string \<rightharpoonup> pyval) \<Rightarrow> string list list \<Rightarrow> error + (string \<rightharpoonup> pyval)" where
  "py_dict d [] = Inr d"
| "py_dict d ([k, v] # pairs) = py_dict (d(k \<mapsto> VStr v)) pairs"
| "py_dict d (other # pairs) = Inl ValueError"

text \<open>
  \<open>environ\<close> is the dictionary of the request; the entries that \<open>application\<close> reads
  are strings. \<^verbatim>\<open>environ['HTTP_COOKIE']\<close> raises \<^verbatim>\<open>KeyError\<close> when the request has no
  Cookie header, since the server sets the key only for a header that was sent.

  \<^verbatim>\<open>dict([map(lambda s: s.strip(), x.split('=')) for x in environ['HTTP_COOKIE'].split(';')])\<close>
\<close>

type_synonym environ = "string \<rightharpoonup> string"

definition parse_cookies :: "environ \<Rightarrow> error + (string \<rightharpoonup> pyval)" where
  "parse_cookies environ =
     (case environ ''HTTP_COOKIE'' of
        None \<Rightarrow> Inl KeyError
      | Some header \<Rightarrow>
          py_dict Map.empty
            (map (\<lambda>x. map py_strip (py_split CHR ''='' x)) (py_split CHR '';'' header)))"

text \<open>
  \<open>application\<close>. The library function \<^verbatim>\<open>parse_qs\<close> and the identifier that
  \<^verbatim>\<open>uuid4\<close> draws are arguments; the two stores are taken and returned. The session
  that is written back with \<open>update\<close> is the object that was put under \<^verbatim>\<open>SESSION\<close>,
  as the handler left it. \<^verbatim>\<open>DEBUG\<close> is \<^verbatim>\<open>False\<close>. The result holds what
  \<^verbatim>\<open>start_response\<close> is called with, the status line and the headers, and the
  returned list with the body.
\<close>

type_synonym wsgi_response = "string \<times> (string \<times> string) list \<times> string list"

definition application ::
  "(string \<Rightarrow> string \<rightharpoonup> pyval) \<Rightarrow> string \<Rightarrow> sessions \<Rightarrow> documents \<Rightarrow> environ
   \<Rightarrow> error + wsgi_response \<times> documents \<times> sessions" where
  "application parse_qs uuid4 sessions_db db environ =
     (case environ ''PATH_INFO'' of
        None \<Rightarrow> Inl KeyError
      | Some request_path \<Rightarrow>
     (case environ ''QUERY_STRING'' of
        None \<Rightarrow> Inl KeyError
      | Some query_string \<Rightarrow>
     (case parse_cookies environ of
        Inl e \<Rightarrow> Inl e
      | Inr cookies \<Rightarrow>
     (case get_or_create uuid4 sessions_db (take_one_or_None cookies ''session_id'') of
        Inl e \<Rightarrow> Inl e
      | Inr (session, sessions_db1) \<Rightarrow>
     (case route router request_path db
             \<lparr>params = parse_qs query_string, SESSION = Some session\<rparr> of
        Inl e \<Rightarrow> Inl e
      | Inr ((http_status_code, response_body), db', request') \<Rightarrow>
          (let session' = (case SESSION request' of Some s \<Rightarrow> s | None \<Rightarrow> session);
               sessions_db2 = update sessions_db1 session';
               response_status = http_status http_status_code;
               response_headers =
                 [(''Content-Type'', ''text/html''),
                  (''Set-Cookie'', ''session_id='' @ session_id session')]
           in Inr ((response_status, response_headers, [response_body]),
                   db', sessions_db2)))))))"

section \<open>The status line\<close>

text \<open>
  C8. For every integer code, \<open>http_status\<close> gives exactly the string "200 OK" when the
  code is 200 and exactly the string "404 Not Found" for every other code; the status
  line is always one of these two strings.
\<close>

theorem http_status_two_literals:
  "http_status 200 = ''200 OK''
   \<and> (\<forall>code. code \<noteq> 200 \<longrightarrow> http_status code = ''404 Not Found'')
   \<and> (\<forall>code. http_status code = ''200 OK'' \<or> http_status code = ''404 Not Found'')"
  by (simp add: http_status_def)

theorem http_status_two_literals_witness:
  "(500::int) \<noteq> 200 \<and> http_status 500 = ''404 Not Found'' \<and> http_status 200 = ''200 OK''"
  using http_status_two_literals by simp

section \<open>The document repository\<close>

lemma key_in_store: "(t \<in> fst ` set db) = (map_of db t \<noteq> None)"
  by (simp add: map_of_eq_None_iff)

text \<open>A store with one entry for each key stays so under \<open>create\<close> and \<open>delete\<close>.\<close>

lemma create_distinct_keys:
  "distinct (map fst db) \<Longrightarrow> distinct (map fst (snd (create db t c)))"
  by (simp add: create_def map_of_eq_None_iff)

lemma delete_distinct_keys:
  "distinct (map fst db) \<Longrightarrow> distinct (map fst (snd (delete db t)))"
  by (simp add: delete_def distinct_map_filter)

text \<open>
  C2. \<open>create\<close> is unique on the title and leaves the store as it was on failure. When
  the title is a key of the document store, \<open>create\<close> returns \<open>False\<close> and the store is
  the one before the call. When the title is not a key, \<open>create\<close> returns \<open>True\<close>, the
  store afterwards maps the title to the content and every other key to what it mapped
  to before, and a second \<open>create\<close> with the same title returns \<open>False\<close> and leaves that
  store, so the first content, in place.
\<close>

theorem create_unique_on_title:
  "(t \<in> fst ` set db \<longrightarrow> create db t c = (False, db))
   \<and> (t \<notin> fst ` set db \<longrightarrow>
        fst (create db t c) = True
        \<and> map_of (snd (create db t c)) = (map_of db)(t \<mapsto> c)
        \<and> create (snd (create db t c)) t c' = (False, snd (create db t c)))"
  by (auto simp: create_def key_in_store map_add_def fun_eq_iff split: option.splits)

theorem create_unique_on_title_witness:
  "''Foo'' \<notin> fst ` set [(''A'', ''x'')]
   \<and> fst (create [(''A'', ''x'')] ''Foo'' ''Bar'') = True
   \<and> map_of (snd (create [(''A'', ''x'')] ''Foo'' ''Bar'')) ''Foo'' = Some ''Bar''
   \<and> map_of (snd (create [(''A'', ''x'')] ''Foo'' ''Bar'')) ''A'' = Some ''x''
   \<and> create (snd (create [(''A'', ''x'')] ''Foo'' ''Bar'')) ''Foo'' ''Baz''
       = (False, snd (create [(''A'', ''x'')] ''Foo'' ''Bar''))
   \<and> ''A'' \<in> fst ` set [(''A'', ''x'')]
   \<and> create [(''A'', ''x'')] ''A'' ''y'' = (False, [(''A'', ''x'')])"
  using create_unique_on_title [of "''Foo''" "[(''A'', ''x'')]" "''Bar''" "''Baz''"]
        create_unique_on_title [of "''A''" "[(''A'', ''x'')]" "''y''"]
  by simp

text \<open>
  C3. \<open>get_by_title\<close> returns \<open>None\<close> when the title is not a key of the store and also
  when the stored content is the empty string, so that a document with empty content
  cannot be told from a missing one. For a title stored with a non-empty content it
  returns the document with that title and content; this is what it returns after a
  \<open>create\<close> of a new title with a non-empty content, while after a \<open>create\<close> with the
  empty content it still returns \<open>None\<close>.
\<close>

theorem get_by_title_none_or_document:
  "(t \<notin> fst ` set db \<longrightarrow> get_by_title db (VStr t) = Inr None)
   \<and> (map_of db t = Some [] \<longrightarrow> get_by_title db (VStr t) = Inr None)
   \<and> (map_of db t = Some c \<and> c \<noteq> [] \<longrightarrow>
        get_by_title db (VStr t) = Inr (Some \<lparr>title = t, content = c\<rparr>))
   \<and> (t \<notin> fst ` set db \<and> c \<noteq> [] \<longrightarrow>
        get_by_title (snd (create db t c)) (VStr t) = Inr (Some \<lparr>title = t, content = c\<rparr>))
   \<and> (t \<notin> fst ` set db \<longrightarrow> get_by_title (snd (create db t [])) (VStr t) = Inr None)"
  by (auto simp: get_by_title_def shelf_get_def create_def key_in_store map_add_def
           split: option.splits)

theorem get_by_title_none_or_document_witness:
  "''Foo'' \<notin> fst ` set [(''A'', ''x''), (''E'', '''')]
   \<and> get_by_title [(''A'', ''x''), (''E'', '''')] (VStr ''Foo'') = Inr None
   \<and> map_of [(''A'', ''x''), (''E'', '''')] ''E'' = Some []
   \<and> get_by_title [(''A'', ''x''), (''E'', '''')] (VStr ''E'') = Inr None
   \<and> map_of [(''A'', ''x''), (''E'', '''')] ''A'' = Some ''x'' \<and> ''x'' \<noteq> []
   \<and> get_by_title [(''A'', ''x''), (''E'', '''')] (VStr ''A'')
       = Inr (Some \<lparr>title = ''A'', content = ''x''\<rparr>)
   \<and> ''Bar'' \<noteq> []
   \<and> get_by_title (snd (create [(''A'', ''x''), (''E'', '''')] ''Foo'' ''Bar'')) (VStr ''Foo'')
       = Inr (Some \<lparr>title = ''Foo'', content = ''Bar''\<rparr>)
   \<and> get_by_title (snd (create [(''A'', ''x''), (''E'', '''')] ''Foo'' [])) (VStr ''Foo'')
       = Inr None"
  using get_by_title_none_or_document [of "''Foo''" "[(''A'', ''x''), (''E'', '''')]" "''Bar''"]
        get_by_title_none_or_document [of "''E''" "[(''A'', ''x''), (''E'', '''')]" "''Bar''"]
        get_by_title_none_or_document [of "''A''" "[(''A'', ''x''), (''E'', '''')]" "''x''"]
  by simp

section \<open>The session repository\<close>

text \<open>
  What \<open>get_or_create\<close> returns. For an argument that is \<open>None\<close>, or a string that is
  not a key of the session store, it makes a session with the newly drawn identifier and
  counter 0, stores it under that identifier and returns it. For a string that is a key
  of the store it returns the stored session and the store is the one before the call.
\<close>

lemma get_or_create_fresh_or_stored:
  "(sid = VNone \<or> (\<exists>k. sid = VStr k \<and> k \<notin> dom db) \<longrightarrow>
      get_or_create u db sid =
        Inr (\<lparr>session_id = u, amount_of_viewed_pages = 0\<rparr>,
             db(u \<mapsto> \<lparr>session_id = u, amount_of_viewed_pages = 0\<rparr>)))
   \<and> (db k = Some s \<longrightarrow> get_or_create u db (VStr k) = Inr (s, db))"
  by (auto simp: get_or_create_def shelf_get_def SessionModel_init_def Let_def dom_def
           split: option.splits)

lemma get_or_create_fresh_or_stored_example:
  "(let old = \<lparr>session_id = ''a1'', amount_of_viewed_pages = 2\<rparr>;
        new = \<lparr>session_id = ''b2'', amount_of_viewed_pages = 0\<rparr>;
        db = [''a1'' \<mapsto> old]
    in ''zz'' \<notin> dom db
       \<and> get_or_create ''b2'' db (VStr ''zz'') = Inr (new, db(''b2'' \<mapsto> new))
       \<and> get_or_create ''b2'' db VNone = Inr (new, db(''b2'' \<mapsto> new))
       \<and> db ''a1'' = Some old
       \<and> get_or_create ''b2'' db (VStr ''a1'') = Inr (old, db))"
  using get_or_create_fresh_or_stored
          [of "VStr ''zz''"
              "[''a1'' \<mapsto> \<lparr>session_id = ''a1'', amount_of_viewed_pages = 2\<rparr>]"
              "''b2''" "''a1''" "\<lparr>session_id = ''a1'', amount_of_viewed_pages = 2\<rparr>"]
        get_or_create_fresh_or_stored
          [of VNone
              "[''a1'' \<mapsto> \<lparr>session_id = ''a1'', amount_of_viewed_pages = 2\<rparr>]"
              "''b2''" "''a1''" "\<lparr>session_id = ''a1'', amount_of_viewed_pages = 2\<rparr>"]
  by (simp add: Let_def)

section \<open>The index page and its view-count gate\<close>

lemma sublist_join: "y \<in> set ys \<Longrightarrow> sublist y (join sep ys)"
proof (induction sep ys rule: join.induct)
  case (1 sep)
  then show ?case by simp
next
  case (2 sep x)
  then show ?case by simp
next
  case (3 sep x y' ys)
  show ?case
  proof (cases "y = x")
    case True
    then show ?thesis by simp
  next
    case False
    with 3 have "sublist y (join sep (y' # ys))" by simp
    then obtain ps ss where "join sep (y' # ys) = ps @ y @ ss"
      by (auto simp: sublist_def)
    then have "join sep (x # y' # ys) = (x @ sep @ ps) @ y @ ss" by simp
    then show ?thesis unfolding sublist_def by blast
  qed
qed

lemma sublist_inside: "sublist xs b \<Longrightarrow> sublist xs (a @ b @ c)"
proof -
  assume "sublist xs b"
  then obtain ps ss where "b = ps @ xs @ ss" by (auto simp: sublist_def)
  then have "a @ b @ c = (a @ ps) @ xs @ (ss @ c)" by simp
  then show ?thesis unfolding sublist_def by blast
qed

lemma sublist_chain: "sublist xs ys \<Longrightarrow> sublist ys zs \<Longrightarrow> sublist xs zs"
proof -
  assume "sublist xs ys" and "sublist ys zs"
  then obtain p1 s1 p2 s2 where "ys = p1 @ xs @ s1" and "zs = p2 @ ys @ s2"
    by (auto simp: sublist_def)
  then have "zs = (p2 @ p1) @ xs @ (s1 @ s2)" by simp
  then show ?thesis unfolding sublist_def by blast
qed

lemma index_template_error: "sublist x e \<Longrightarrow> sublist x (index_template e c t)"
proof -
  assume a: "sublist x e"
  have "sublist (''        <div>'' @ e @ ''</div>'') (index_template e c t)"
    unfolding index_template_def by (rule sublist_join) simp
  moreover have "sublist x (''        <div>'' @ e @ ''</div>'')"
    using a by (rule sublist_inside)
  ultimately show ?thesis by (rule sublist_chain [rotated])
qed

lemma index_template_content: "sublist x c \<Longrightarrow> sublist x (index_template e c t)"
proof -
  assume a: "sublist x c"
  have "sublist (''        <div>'' @ c @ ''</div>'') (index_template e c t)"
    unfolding index_template_def by (rule sublist_join) simp
  moreover have "sublist x (''        <div>'' @ c @ ''</div>'')"
    using a by (rule sublist_inside)
  ultimately show ?thesis by (rule sublist_chain [rotated])
qed

lemma render_has_content:
  "ctx_current ctx = Some d \<Longrightarrow> sublist (content d) (fst (TextIndexView_render ctx))"
proof -
  assume cur: "ctx_current ctx = Some d"
  have "sublist (content d)
          ((NL @ ''            <h1>'' @ title d @ ''</h1>'' @ NL @ ''            '')
            @ content d @ (NL @ ''            ''))"
    by (rule sublist_appendI)
  then show ?thesis
    using cur by (simp add: TextIndexView_render_def Let_def index_template_content)
qed

lemma render_no_current:
  "ctx_current ctx = None \<Longrightarrow>
   sublist ''What do you want read?'' (fst (TextIndexView_render ctx))"
  by (simp add: TextIndexView_render_def Let_def index_template_content)

lemma render_has_error:
  "sublist (ctx_error ctx) (fst (TextIndexView_render ctx))"
proof (cases "ctx_error ctx = []")
  case True
  then show ?thesis by simp
next
  case False
  have "sublist (ctx_error ctx)
          ((NL @ ''            <h1 style=\"color:red;\">'') @ ctx_error ctx
            @ (''</h1>'' @ NL @ ''            ''))"
    by (rule sublist_appendI)
  then show ?thesis
    using False by (simp add: TextIndexView_render_def Let_def index_template_error)
qed

text \<open>
  C1. The view-count gate of \<open>index\<close>. Take a request whose session has counter \<open>n\<close>.
  If \<open>n \<le> 3\<close> and the title of the request is stored with a non-empty content, \<open>index\<close>
  returns status 200 with a body that contains the content, and the session in the
  request has counter \<open>n + 1\<close> afterwards. If \<open>n > 3\<close>, whatever the title, the body is
  the page rendered with no current document, it contains the message
  "Too many articles reviewed.", and the request, so the counter, is left as it was.
  The counter is compared before it is incremented, so a view at counter 3 is allowed.
\<close>

theorem index_view_count_gate:
  "SESSION req = Some s \<longrightarrow>
     (amount_of_viewed_pages s \<le> 3
        \<and> take_one_or_None (params req) ''title'' = VStr t
        \<and> map_of db t = Some c \<and> c \<noteq> [] \<longrightarrow>
        (\<exists>body. index TextIndexView_render db req
                  = Inr ((200, body), db,
                         req\<lparr>SESSION := Some (s\<lparr>amount_of_viewed_pages :=
                                                    amount_of_viewed_pages s + 1\<rparr>)\<rparr>)
               \<and> sublist c body))
     \<and> (amount_of_viewed_pages s > 3 \<longrightarrow>
        (\<exists>body. index TextIndexView_render db req = Inr ((200, body), db, req)
               \<and> body = fst (TextIndexView_render
                     \<lparr>ctx_all = get_all db, ctx_current = None,
                      ctx_error = ''Too many articles reviewed.'',
                      ctx_titles = None, ctx_content = None\<rparr>)
               \<and> sublist ''Too many articles reviewed.'' body
               \<and> sublist ''What do you want read?'' body))"
proof (intro impI conjI)
  assume s: "SESSION req = Some s"
  assume h: "amount_of_viewed_pages s \<le> 3
        \<and> take_one_or_None (params req) ''title'' = VStr t
        \<and> map_of db t = Some c \<and> c \<noteq> []"
  then have g: "get_by_title db (VStr t) = Inr (Some \<lparr>title = t, content = c\<rparr>)"
    by (simp add: get_by_title_def shelf_get_def)
  let ?ctx = "\<lparr>ctx_all = get_all db, ctx_current = Some \<lparr>title = t, content = c\<rparr>,
               ctx_error = '''', ctx_titles = None, ctx_content = None\<rparr>"
  have "sublist c (fst (TextIndexView_render ?ctx))"
    using render_has_content [of ?ctx "\<lparr>title = t, content = c\<rparr>"] by simp
  moreover have "index TextIndexView_render db req
      = Inr ((200, fst (TextIndexView_render ?ctx)), db,
             req\<lparr>SESSION := Some (s\<lparr>amount_of_viewed_pages := amount_of_viewed_pages s + 1\<rparr>)\<rparr>)"
    using s h g by (simp add: index_def Let_def)
  ultimately show "\<exists>body. index TextIndexView_render db req
                  = Inr ((200, body), db,
                         req\<lparr>SESSION := Some (s\<lparr>amount_of_viewed_pages :=
                                                    amount_of_viewed_pages s + 1\<rparr>)\<rparr>)
               \<and> sublist c body"
    by blast
next
  assume s: "SESSION req = Some s"
  assume h: "amount_of_viewed_pages s > 3"
  let ?ctx = "\<lparr>ctx_all = get_all db, ctx_current = None,
                      ctx_error = ''Too many articles reviewed.'',
                      ctx_titles = None, ctx_content = None\<rparr>"
  have "index TextIndexView_render db req = Inr ((200, fst (TextIndexView_render ?ctx)), db, req)"
    using s h by (simp add: index_def Let_def)
  moreover have "sublist ''Too many articles reviewed.'' (fst (TextIndexView_render ?ctx))"
    using render_has_error [of ?ctx] by simp
  moreover have "sublist ''What do you want read?'' (fst (TextIndexView_render ?ctx))"
    using render_no_current [of ?ctx] by simp
  ultimately show "\<exists>body. index TextIndexView_render db req = Inr ((200, body), db, req)
               \<and> body = fst (TextIndexView_render ?ctx)
               \<and> sublist ''Too many articles reviewed.'' body
               \<and> sublist ''What do you want read?'' body"
    by blast
qed

theorem index_view_count_gate_witness:
  "(let s = \<lparr>session_id = ''u1'', amount_of_viewed_pages = 3\<rparr>;
        req = \<lparr>params = [''title'' \<mapsto> VList [''Foo'']], SESSION = Some s\<rparr>;
        db = [(''Foo'', ''Bar'')]
    in SESSION req = Some s \<and> amount_of_viewed_pages s \<le> 3
       \<and> take_one_or_None (params req) ''title'' = VStr ''Foo''
       \<and> map_of db ''Foo'' = Some ''Bar'' \<and> ''Bar'' \<noteq> []
       \<and> (\<exists>body. index TextIndexView_render db req
                 = Inr ((200, body), db,
                        req\<lparr>SESSION := Some \<lparr>session_id = ''u1'', amount_of_viewed_pages = 4\<rparr>\<rparr>)
              \<and> sublist ''Bar'' body))
   \<and> (let s = \<lparr>session_id = ''u1'', amount_of_viewed_pages = 4\<rparr>;
          req = \<lparr>params = [''title'' \<mapsto> VList [''Foo'']], SESSION = Some s\<rparr>;
          db = [(''Foo'', ''Bar'')]
      in SESSION req = Some s \<and> amount_of_viewed_pages s > 3
         \<and> (\<exists>body. index TextIndexView_render db req = Inr ((200, body), db, req)
                \<and> sublist ''Too many articles reviewed.'' body
                \<and> sublist ''What do you want read?'' body))"
  using index_view_count_gate
          [of "\<lparr>params = [''title'' \<mapsto> VList [''Foo'']],
                SESSION = Some \<lparr>session_id = ''u1'', amount_of_viewed_pages = 3\<rparr>\<rparr>"
              "\<lparr>session_id = ''u1'', amount_of_viewed_pages = 3\<rparr>"
              "''Foo''" "[(''Foo'', ''Bar'')]" "''Bar''"]
        index_view_count_gate
          [of "\<lparr>params = [''title'' \<mapsto> VList [''Foo'']],
                SESSION = Some \<lparr>session_id = ''u1'', amount_of_viewed_pages = 4\<rparr>\<rparr>"
              "\<lparr>session_id = ''u1'', amount_of_viewed_pages = 4\<rparr>"
              "''Foo''" "[(''Foo'', ''Bar'')]" "''Bar''"]
  by (simp add: take_one_or_None_def Let_def)

section \<open>The add handler\<close>

lemma truthy_take_one:
  "truthy (take_one_or_None d k) \<Longrightarrow> \<exists>s. take_one_or_None d k = VStr s \<and> s \<noteq> []"
  by (auto simp: take_one_or_None_def split: option.splits pyval.splits list.splits)

lemma add_empty_form:
  "\<not> truthy (take_one_or_None (params req) ''title'')
     \<or> \<not> truthy (take_one_or_None (params req) ''content'') \<Longrightarrow>
   add v db req =
     Inr ((200, fst (v \<lparr>form_title = take_one_or_None (params req) ''title'',
                         form_content = take_one_or_None (params req) ''content'',
                         form_error = Some ''Need fill the form fields.''\<rparr>)), db, req)"
  by (auto simp: add_def Let_def)

lemma add_filled_form:
  "take_one_or_None (params req) ''title'' = VStr t \<Longrightarrow> t \<noteq> [] \<Longrightarrow>
   take_one_or_None (params req) ''content'' = VStr c \<Longrightarrow> c \<noteq> [] \<Longrightarrow>
   add v db req =
     Inr ((200, fst (v \<lparr>form_title = VStr t, form_content = VStr c,
                         form_error = (if t \<in> fst ` set db
                                       then Some ''Title already exist.'' else None)\<rparr>)),
          snd (create db t c), req)"
  by (simp add: add_def Let_def create_def key_in_store)

text \<open>
  C6. Validation in \<open>add\<close>, for any view the controller is given. When the title or the
  content taken from the request is missing or empty, the view receives the error
  "Need fill the form fields." and the document store is the one before the call: no
  creation is attempted. When both are true values they are non-empty strings, \<open>create\<close>
  is called with them, and the view receives the error "Title already exist." exactly
  when \<open>create\<close> fails, which it does for a title that is already stored, leaving the
  store unchanged.
\<close>

theorem add_validates_form:
  "(\<not> truthy (take_one_or_None (params req) ''title'')
      \<or> \<not> truthy (take_one_or_None (params req) ''content'') \<longrightarrow>
      add v db req =
        Inr ((200, fst (v \<lparr>form_title = take_one_or_None (params req) ''title'',
                            form_content = take_one_or_None (params req) ''content'',
                            form_error = Some ''Need fill the form fields.''\<rparr>)), db, req))
   \<and> (truthy (take_one_or_None (params req) ''title'')
      \<and> truthy (take_one_or_None (params req) ''content'') \<longrightarrow>
      (\<exists>t c. take_one_or_None (params req) ''title'' = VStr t
           \<and> take_one_or_None (params req) ''content'' = VStr c
           \<and> add v db req =
               Inr ((200, fst (v \<lparr>form_title = VStr t, form_content = VStr c,
                                   form_error = (if fst (create db t c) then None
                                                 else Some ''Title already exist.'')\<rparr>)),
                    snd (create db t c), req)
           \<and> (t \<in> fst ` set db \<longrightarrow> create db t c = (False, db))))"
proof (intro conjI impI)
  assume "\<not> truthy (take_one_or_None (params req) ''title'')
      \<or> \<not> truthy (take_one_or_None (params req) ''content'')"
  then show "add v db req =
        Inr ((200, fst (v \<lparr>form_title = take_one_or_None (params req) ''title'',
                            form_content = take_one_or_None (params req) ''content'',
                            form_error = Some ''Need fill the form fields.''\<rparr>)), db, req)"
    by (rule add_empty_form)
next
  assume h: "truthy (take_one_or_None (params req) ''title'')
      \<and> truthy (take_one_or_None (params req) ''content'')"
  then obtain t c where t: "take_one_or_None (params req) ''title'' = VStr t" "t \<noteq> []"
    and c: "take_one_or_None (params req) ''content'' = VStr c" "c \<noteq> []"
    using truthy_take_one by blast
  have "add v db req =
               Inr ((200, fst (v \<lparr>form_title = VStr t, form_content = VStr c,
                                   form_error = (if fst (create db t c) then None
                                                 else Some ''Title already exist.'')\<rparr>)),
                    snd (create db t c), req)"
    using add_filled_form [OF t c, of v db] by (simp add: create_def key_in_store)
  moreover have "t \<in> fst ` set db \<longrightarrow> create db t c = (False, db)"
    by (simp add: create_def key_in_store)
  ultimately show "\<exists>t c. take_one_or_None (params req) ''title'' = VStr t
           \<and> take_one_or_None (params req) ''content'' = VStr c
           \<and> add v db req =
               Inr ((200, fst (v \<lparr>form_title = VStr t, form_content = VStr c,
                                   form_error = (if fst (create db t c) then None
                                                 else Some ''Title already exist.'')\<rparr>)),
                    snd (create db t c), req)
           \<and> (t \<in> fst ` set db \<longrightarrow> create db t c = (False, db))"
    using t c by blast
qed

theorem add_validates_form_witness:
  "(let echo = (\<lambda>ctx. (case form_error ctx of Some e \<Rightarrow> e | None \<Rightarrow> '''', ctx));
        db = [(''A'', ''x'')];
        req1 = \<lparr>params = [''title'' \<mapsto> VList [''Foo'']], SESSION = None\<rparr>;
        req2 = \<lparr>params = [''title'' \<mapsto> VList [''A''], ''content'' \<mapsto> VList [''y'']],
                SESSION = None\<rparr>;
        req3 = \<lparr>params = [''title'' \<mapsto> VList [''Foo''], ''content'' \<mapsto> VList [''Bar'']],
                SESSION = None\<rparr>
    in \<not> truthy (take_one_or_None (params req1) ''content'')
       \<and> add echo db req1 = Inr ((200, ''Need fill the form fields.''), db, req1)
       \<and> truthy (take_one_or_None (params req2) ''title'')
       \<and> truthy (take_one_or_None (params req2) ''content'')
       \<and> add echo db req2 = Inr ((200, ''Title already exist.''), db, req2)
       \<and> truthy (take_one_or_None (params req3) ''title'')
       \<and> truthy (take_one_or_None (params req3) ''content'')
       \<and> add echo db req3 = Inr ((200, ''''), [(''A'', ''x''), (''Foo'', ''Bar'')], req3))"
  using add_validates_form
          [of "\<lparr>params = [''title'' \<mapsto> VList [''Foo'']], SESSION = None\<rparr>"
              "\<lambda>ctx. (case form_error ctx of Some e \<Rightarrow> e | None \<Rightarrow> '''', ctx)"
              "[(''A'', ''x'')]"]
        add_validates_form
          [of "\<lparr>params = [''title'' \<mapsto> VList [''A''], ''content'' \<mapsto> VList [''y'']],
                SESSION = None\<rparr>"
              "\<lambda>ctx. (case form_error ctx of Some e \<Rightarrow> e | None \<Rightarrow> '''', ctx)"
              "[(''A'', ''x'')]"]
        add_validates_form
          [of "\<lparr>params = [''title'' \<mapsto> VList [''Foo''], ''content'' \<mapsto> VList [''Bar'']],
                SESSION = None\<rparr>"
              "\<lambda>ctx. (case form_error ctx of Some e \<Rightarrow> e | None \<Rightarrow> '''', ctx)"
              "[(''A'', ''x'')]"]
  by (simp add: take_one_or_None_def create_def Let_def)

lemma add_never_raises: "\<exists>r db'. add v db req = Inr (r, db', req)"
proof (cases "truthy (take_one_or_None (params req) ''title'')
      \<and> truthy (take_one_or_None (params req) ''content'')")
  case True
  then obtain t c where t: "take_one_or_None (params req) ''title'' = VStr t" "t \<noteq> []"
    and c: "take_one_or_None (params req) ''content'' = VStr c" "c \<noteq> []"
    using truthy_take_one by blast
  show ?thesis using add_filled_form [OF t c, of v db] by blast
next
  case False
  then show ?thesis using add_empty_form [of req v db] by blast
qed

lemma add_redirect:
  "\<exists>db'. add RedirectView_render db req
           = Inr ((200, ''<meta http-equiv=\"refresh\" content=\"0; url=/text\" />''), db', req)"
proof (cases "truthy (take_one_or_None (params req) ''title'')
      \<and> truthy (take_one_or_None (params req) ''content'')")
  case True
  then obtain t c where t: "take_one_or_None (params req) ''title'' = VStr t" "t \<noteq> []"
    and c: "take_one_or_None (params req) ''content'' = VStr c" "c \<noteq> []"
    using truthy_take_one by blast
  show ?thesis
    using add_filled_form [OF t c, of RedirectView_render db]
    by (simp add: RedirectView_render_def)
next
  case False
  then show ?thesis
    using add_empty_form [of req RedirectView_render db]
    by (simp add: RedirectView_render_def)
qed

lemma router_paths:
  "router ''/'' = Some (\<lambda>db x. Inr ((200, ''Index HI!''), db, x))"
  "router ''/text'' = Some (index TextIndexView_render)"
  "router ''/text/add'' = Some (add RedirectView_render)"
  "path \<noteq> ''/'' \<Longrightarrow> path \<noteq> ''/text'' \<Longrightarrow> path \<noteq> ''/text/add'' \<Longrightarrow> router path = None"
  by (simp_all add: router_def register_def)

text \<open>
  C10. The response of the handler wired to "/text/add" does not depend on the request:
  for every document store and every request, \<open>add\<close> with \<open>RedirectView\<close> returns status
  200 and exactly the redirect stub as body, and so does the router on "/text/add". The
  two error messages of \<open>add\<close> do not occur in that body.
\<close>

theorem add_response_is_redirect_stub:
  "(\<exists>db'. add RedirectView_render db req
           = Inr ((200, ''<meta http-equiv=\"refresh\" content=\"0; url=/text\" />''), db', req))
   \<and> (\<exists>db'. route router ''/text/add'' db req
           = Inr ((200, ''<meta http-equiv=\"refresh\" content=\"0; url=/text\" />''), db', req))
   \<and> \<not> sublist ''Need fill the form fields.''
          ''<meta http-equiv=\"refresh\" content=\"0; url=/text\" />''
   \<and> \<not> sublist ''Title already exist.''
          ''<meta http-equiv=\"refresh\" content=\"0; url=/text\" />''"
proof (intro conjI)
  show "\<exists>db'. add RedirectView_render db req
           = Inr ((200, ''<meta http-equiv=\"refresh\" content=\"0; url=/text\" />''), db', req)"
    by (rule add_redirect)
  then show "\<exists>db'. route router ''/text/add'' db req
           = Inr ((200, ''<meta http-equiv=\"refresh\" content=\"0; url=/text\" />''), db', req)"
    by (simp add: route_def router_paths)
  show "\<not> sublist ''Need fill the form fields.''
          ''<meta http-equiv=\"refresh\" content=\"0; url=/text\" />''"
    by code_simp
  show "\<not> sublist ''Title already exist.''
          ''<meta http-equiv=\"refresh\" content=\"0; url=/text\" />''"
    by code_simp
qed

theorem add_response_is_redirect_stub_witness:
  "(let db = [(''A'', ''x'')];
        req1 = \<lparr>params = [''title'' \<mapsto> VList [''Foo'']], SESSION = None\<rparr>;
        req2 = \<lparr>params = [''title'' \<mapsto> VList [''A''], ''content'' \<mapsto> VList [''y'']],
                SESSION = None\<rparr>
    in \<not> truthy (take_one_or_None (params req1) ''content'')
       \<and> (\<exists>db'. add RedirectView_render db req1
                 = Inr ((200, ''<meta http-equiv=\"refresh\" content=\"0; url=/text\" />''),
                        db', req1))
       \<and> truthy (take_one_or_None (params req2) ''title'')
       \<and> truthy (take_one_or_None (params req2) ''content'')
       \<and> (\<exists>db'. add RedirectView_render db req2
                 = Inr ((200, ''<meta http-equiv=\"refresh\" content=\"0; url=/text\" />''),
                        db', req2))
       \<and> (\<exists>db'. route router ''/text/add'' db req2
                 = Inr ((200, ''<meta http-equiv=\"refresh\" content=\"0; url=/text\" />''),
                        db', req2)))"
  using add_response_is_redirect_stub
          [of "[(''A'', ''x'')]"
              "\<lparr>params = [''title'' \<mapsto> VList [''Foo'']], SESSION = None\<rparr>"]
        add_response_is_redirect_stub
          [of "[(''A'', ''x'')]"
              "\<lparr>params = [''title'' \<mapsto> VList [''A''], ''content'' \<mapsto> VList [''y'']],
                SESSION = None\<rparr>"]
  by (simp add: take_one_or_None_def Let_def)

section \<open>The router\<close>

lemma index_returns:
  "SESSION req \<noteq> None \<Longrightarrow> take_one_or_None (params req) ''title'' \<noteq> VList [] \<Longrightarrow>
   \<exists>body req'. index v db req = Inr ((200, body), db, req')"
proof -
  assume s: "SESSION req \<noteq> None" and t: "take_one_or_None (params req) ''title'' \<noteq> VList []"
  have "\<exists>x. take_one_or_None (params req) ''title'' = VStr x
          \<or> take_one_or_None (params req) ''title'' = VNone"
    using t by (auto simp: take_one_or_None_def split: option.splits pyval.splits list.splits)
  then have "\<exists>r. get_by_title db (take_one_or_None (params req) ''title'') = Inr r"
    by (auto simp: get_by_title_def shelf_get_def split: option.splits)
  then show ?thesis
    using s by (auto simp: index_def Let_def)
qed

text \<open>
  C4. \<open>route\<close> looks the path up by equality. For a path that is not registered it
  returns exactly 404 with the body "Nooo 404!"; for a registered path it returns what
  the registered handler returns, and of two registrations of a path the later one is
  used. In the wired router every path other than "/", "/text" and "/text/add" gives
  404; "/" and "/text/add" give status 200 for every request, and "/text" gives status
  200 for every request that carries a session, as every request that \<open>application\<close>
  routes does, and whose title is not an empty list.
\<close>

theorem route_exact_match_or_404:
  "(paths path = None \<longrightarrow> route paths path db req = Inr ((404, ''Nooo 404!''), db, req))
   \<and> (paths path = Some h \<longrightarrow> route paths path db req = h db req)
   \<and> route (register (register paths path h1) path h2) path db req = h2 db req
   \<and> (path \<noteq> ''/'' \<and> path \<noteq> ''/text'' \<and> path \<noteq> ''/text/add'' \<longrightarrow>
        route router path db req = Inr ((404, ''Nooo 404!''), db, req))
   \<and> route router ''/'' db req = Inr ((200, ''Index HI!''), db, req)
   \<and> (SESSION req \<noteq> None \<and> take_one_or_None (params req) ''title'' \<noteq> VList [] \<longrightarrow>
        (\<exists>body req'. route router ''/text'' db req = Inr ((200, body), db, req')))
   \<and> (\<exists>body db'. route router ''/text/add'' db req = Inr ((200, body), db', req))"
proof (intro conjI impI)
  show "route (register (register paths path h1) path h2) path db req = h2 db req"
    by (simp add: route_def register_def)
  show "route router ''/'' db req = Inr ((200, ''Index HI!''), db, req)"
    by (simp add: route_def router_paths)
  show "\<exists>body db'. route router ''/text/add'' db req = Inr ((200, body), db', req)"
    using add_redirect [of db req] by (auto simp: route_def router_paths)
next
  assume "paths path = None"
  then show "route paths path db req = Inr ((404, ''Nooo 404!''), db, req)"
    by (simp add: route_def default_response_def)
next
  assume "paths path = Some h"
  then show "route paths path db req = h db req"
    by (simp add: route_def)
next
  assume "path \<noteq> ''/'' \<and> path \<noteq> ''/text'' \<and> path \<noteq> ''/text/add''"
  then show "route router path db req = Inr ((404, ''Nooo 404!''), db, req)"
    by (simp add: route_def default_response_def router_paths)
next
  assume "SESSION req \<noteq> None \<and> take_one_or_None (params req) ''title'' \<noteq> VList []"
  then show "\<exists>body req'. route router ''/text'' db req = Inr ((200, body), db, req')"
    using index_returns [of req TextIndexView_render db] by (simp add: route_def router_paths)
qed

theorem route_exact_match_or_404_witness:
  "(let s = \<lparr>session_id = ''u1'', amount_of_viewed_pages = 0\<rparr>;
        req = \<lparr>params = [''title'' \<mapsto> VList [''Foo'']], SESSION = Some s\<rparr>;
        db = [(''Foo'', ''Bar'')]
    in router ''/text/'' = None
       \<and> route router ''/text/'' db req = Inr ((404, ''Nooo 404!''), db, req)
       \<and> router ''/'' = Some (\<lambda>db x. Inr ((200, ''Index HI!''), db, x))
       \<and> route router ''/'' db req = Inr ((200, ''Index HI!''), db, req)
       \<and> SESSION req \<noteq> None \<and> take_one_or_None (params req) ''title'' \<noteq> VList []
       \<and> (\<exists>body req'. route router ''/text'' db req = Inr ((200, body), db, req'))
       \<and> (\<exists>body db'. route router ''/text/add'' db req = Inr ((200, body), db', req)))"
  using route_exact_match_or_404
          [of router "''/text/''"
              "[(''Foo'', ''Bar'')]"
              "\<lparr>params = [''title'' \<mapsto> VList [''Foo'']],
                SESSION = Some \<lparr>session_id = ''u1'', amount_of_viewed_pages = 0\<rparr>\<rparr>"]
        route_exact_match_or_404
          [of router "''/''"
              "[(''Foo'', ''Bar'')]"
              "\<lparr>params = [''title'' \<mapsto> VList [''Foo'']],
                SESSION = Some \<lparr>session_id = ''u1'', amount_of_viewed_pages = 0\<rparr>\<rparr>"
              "\<lambda>db x. Inr ((200, ''Index HI!''), db, x)"]
  by (simp add: router_paths take_one_or_None_def Let_def)

section \<open>The views and their context\<close>

text \<open>
  C7, as stated: rendering leaves the caller's context with the same keys and values.
  This fails for the index view: on the context with no documents, no current document
  and no error, \<open>TextIndexView.render\<close> leaves a context that differs from the one it
  was given (the keys \<^verbatim>\<open>titles\<close> and \<^verbatim>\<open>content\<close> have been stored).
\<close>

theorem render_writes_context_counterexample:
  "snd (TextIndexView_render
          \<lparr>ctx_all = [], ctx_current = None, ctx_error = '''',
           ctx_titles = None, ctx_content = None\<rparr>)
   \<noteq> \<lparr>ctx_all = [], ctx_current = None, ctx_error = '''',
       ctx_titles = None, ctx_content = None\<rparr>"
  by (simp add: TextIndexView_render_def Let_def)

text \<open>
  C7, amended. \<open>RedirectView.render\<close> returns the same string for every context and
  leaves its context unchanged. The string that \<open>TextIndexView.render\<close> returns is
  determined by the keys \<^verbatim>\<open>all\<close>, \<^verbatim>\<open>current\<close> and \<^verbatim>\<open>error\<close> of the context, and
  it leaves \<^verbatim>\<open>all\<close> and \<^verbatim>\<open>current\<close> as they were; but it writes to the caller's
  context. Afterwards \<^verbatim>\<open>titles\<close> holds the items \<^verbatim>\<open><li>title</li>\<close> of the documents
  under \<^verbatim>\<open>all\<close>, joined by line feeds; \<^verbatim>\<open>content\<close> holds "What do you want read?"
  when there is no current document, and otherwise the block with the title of the
  current document in \<^verbatim>\<open><h1>\<close> and its content below; an empty error stays empty
  and a non-empty error is replaced by the block that wraps it in
  \<^verbatim>\<open><h1 style="color:red;">\<close>. The returned string is the template filled with
  these three values, and the context afterwards is the one before with these three
  keys set, so a context in which \<^verbatim>\<open>titles\<close> or \<^verbatim>\<open>content\<close> was absent, or the error
  non-empty, is changed.
\<close>

theorem views_output_and_context:
  "snd (RedirectView_render c) = c
   \<and> fst (RedirectView_render c) = fst (RedirectView_render c')
   \<and> (ctx_all ctx = ctx_all ctx' \<and> ctx_current ctx = ctx_current ctx'
        \<and> ctx_error ctx = ctx_error ctx' \<longrightarrow>
        fst (TextIndexView_render ctx) = fst (TextIndexView_render ctx'))
   \<and> ctx_all (snd (TextIndexView_render ctx)) = ctx_all ctx
   \<and> ctx_current (snd (TextIndexView_render ctx)) = ctx_current ctx
   \<and> ctx_titles (snd (TextIndexView_render ctx)) \<noteq> None
   \<and> ctx_content (snd (TextIndexView_render ctx)) \<noteq> None
   \<and> (ctx_error ctx = [] \<longrightarrow> ctx_error (snd (TextIndexView_render ctx)) = [])
   \<and> (ctx_error ctx \<noteq> [] \<longrightarrow> ctx_error (snd (TextIndexView_render ctx)) \<noteq> ctx_error ctx)
   \<and> (ctx_titles ctx = None \<or> ctx_content ctx = None \<or> ctx_error ctx \<noteq> [] \<longrightarrow>
        snd (TextIndexView_render ctx) \<noteq> ctx)
   \<and> ctx_titles (snd (TextIndexView_render ctx))
       = Some (join NL (map (\<lambda>text. ''<li>'' @ title text @ ''</li>'') (ctx_all ctx)))
   \<and> (ctx_current ctx = None \<longrightarrow>
        ctx_content (snd (TextIndexView_render ctx)) = Some ''What do you want read?'')
   \<and> (\<forall>d. ctx_current ctx = Some d \<longrightarrow>
        ctx_content (snd (TextIndexView_render ctx))
        = Some (NL @ ''            <h1>'' @ title d @ ''</h1>'' @ NL
                @ ''            '' @ content d @ NL @ ''            ''))
   \<and> (ctx_error ctx \<noteq> [] \<longrightarrow>
        ctx_error (snd (TextIndexView_render ctx))
        = NL @ ''            <h1 style=\"color:red;\">'' @ ctx_error ctx @ ''</h1>'' @ NL
          @ ''            '')
   \<and> (\<forall>t c. ctx_titles (snd (TextIndexView_render ctx)) = Some t
            \<and> ctx_content (snd (TextIndexView_render ctx)) = Some c \<longrightarrow>
        fst (TextIndexView_render ctx)
        = index_template (ctx_error (snd (TextIndexView_render ctx))) c t
        \<and> snd (TextIndexView_render ctx)
          = ctx\<lparr>ctx_titles := Some t, ctx_content := Some c,
                 ctx_error := ctx_error (snd (TextIndexView_render ctx))\<rparr>)"
proof -
  have len: "ctx_error ctx \<noteq> [] \<Longrightarrow>
             length (ctx_error (snd (TextIndexView_render ctx))) > length (ctx_error ctx)"
    by (simp add: TextIndexView_render_def Let_def)
  have e: "ctx_error ctx \<noteq> [] \<Longrightarrow> ctx_error (snd (TextIndexView_render ctx)) \<noteq> ctx_error ctx"
    using len by force
  have t: "ctx_titles (snd (TextIndexView_render ctx)) \<noteq> None"
    by (simp add: TextIndexView_render_def Let_def)
  have c: "ctx_content (snd (TextIndexView_render ctx)) \<noteq> None"
    by (simp add: TextIndexView_render_def Let_def)
  have ch: "ctx_titles ctx = None \<or> ctx_content ctx = None \<or> ctx_error ctx \<noteq> [] \<Longrightarrow>
        snd (TextIndexView_render ctx) \<noteq> ctx"
    using e t c by metis
  have dep: "ctx_all ctx = ctx_all ctx' \<and> ctx_current ctx = ctx_current ctx'
        \<and> ctx_error ctx = ctx_error ctx' \<Longrightarrow>
        fst (TextIndexView_render ctx) = fst (TextIndexView_render ctx')"
    by (simp add: TextIndexView_render_def Let_def)
  have tv: "ctx_titles (snd (TextIndexView_render ctx))
       = Some (join NL (map (\<lambda>text. ''<li>'' @ title text @ ''</li>'') (ctx_all ctx)))"
    by (simp add: TextIndexView_render_def Let_def)
  have cn: "ctx_current ctx = None \<longrightarrow>
        ctx_content (snd (TextIndexView_render ctx)) = Some ''What do you want read?''"
    by (simp add: TextIndexView_render_def Let_def)
  have cs: "\<forall>d. ctx_current ctx = Some d \<longrightarrow>
        ctx_content (snd (TextIndexView_render ctx))
        = Some (NL @ ''            <h1>'' @ title d @ ''</h1>'' @ NL
                @ ''            '' @ content d @ NL @ ''            '')"
    by (simp add: TextIndexView_render_def Let_def)
  have ev: "ctx_error ctx \<noteq> [] \<longrightarrow>
        ctx_error (snd (TextIndexView_render ctx))
        = NL @ ''            <h1 style=\"color:red;\">'' @ ctx_error ctx @ ''</h1>'' @ NL
          @ ''            ''"
    by (simp add: TextIndexView_render_def Let_def)
  have whole: "\<forall>t c. ctx_titles (snd (TextIndexView_render ctx)) = Some t
            \<and> ctx_content (snd (TextIndexView_render ctx)) = Some c \<longrightarrow>
        fst (TextIndexView_render ctx)
        = index_template (ctx_error (snd (TextIndexView_render ctx))) c t
        \<and> snd (TextIndexView_render ctx)
          = ctx\<lparr>ctx_titles := Some t, ctx_content := Some c,
                 ctx_error := ctx_error (snd (TextIndexView_render ctx))\<rparr>"
    by (simp add: TextIndexView_render_def Let_def)
  have rv: "snd (RedirectView_render c) = c
            \<and> fst (RedirectView_render c) = fst (RedirectView_render c')"
    by (simp add: RedirectView_render_def)
  have keep: "ctx_all (snd (TextIndexView_render ctx)) = ctx_all ctx
              \<and> ctx_current (snd (TextIndexView_render ctx)) = ctx_current ctx"
    by (simp add: TextIndexView_render_def Let_def)
  have e0: "ctx_error ctx = [] \<longrightarrow> ctx_error (snd (TextIndexView_render ctx)) = []"
    by (simp add: TextIndexView_render_def Let_def)
  show ?thesis
    using rv keep e0 e t c ch dep tv cn cs ev whole by blast
qed

theorem views_output_and_context_witness:
  "(let ctx = \<lparr>ctx_all = [], ctx_current = None, ctx_error = ''e'',
               ctx_titles = None, ctx_content = None\<rparr>;
        ctx' = \<lparr>ctx_all = [], ctx_current = None, ctx_error = ''e'',
                ctx_titles = Some ''t'', ctx_content = Some ''c''\<rparr>
    in ctx_all ctx = ctx_all ctx' \<and> ctx_current ctx = ctx_current ctx'
       \<and> ctx_error ctx = ctx_error ctx'
       \<and> fst (TextIndexView_render ctx) = fst (TextIndexView_render ctx')
       \<and> ctx_error ctx \<noteq> []
       \<and> ctx_error (snd (TextIndexView_render ctx)) \<noteq> ''e''
       \<and> ctx_error (snd (TextIndexView_render ctx))
           = NL @ ''            <h1 style=\"color:red;\">'' @ ''e'' @ ''</h1>'' @ NL
             @ ''            ''
       \<and> ctx_current ctx = None
       \<and> ctx_content (snd (TextIndexView_render ctx)) = Some ''What do you want read?''
       \<and> ctx_titles (snd (TextIndexView_render ctx)) = Some ''''
       \<and> ctx_titles ctx = None
       \<and> snd (TextIndexView_render ctx) \<noteq> ctx)"
  using views_output_and_context
          [of "()" "()"
              "\<lparr>ctx_all = [], ctx_current = None, ctx_error = ''e'',
                ctx_titles = None, ctx_content = None\<rparr>"
              "\<lparr>ctx_all = [], ctx_current = None, ctx_error = ''e'',
                ctx_titles = Some ''t'', ctx_content = Some ''c''\<rparr>"]
  by (simp add: Let_def)

section \<open>The session counter\<close>

lemma index_session_step:
  assumes "SESSION req = Some s" and "index v db req = Inr (r, db', req')"
  shows "\<exists>s'. SESSION req' = Some s' \<and> session_id s' = session_id s
         \<and> (amount_of_viewed_pages s' = amount_of_viewed_pages s
             \<or> amount_of_viewed_pages s' = amount_of_viewed_pages s + 1)
         \<and> (amount_of_viewed_pages s' = amount_of_viewed_pages s + 1 \<longleftrightarrow>
              amount_of_viewed_pages s \<le> 3
              \<and> (\<exists>d. get_by_title db (take_one_or_None (params req) ''title'')
                        = Inr (Some d)))"
proof (cases "amount_of_viewed_pages s \<le> 3")
  case False
  with assms have "req' = req" by (auto simp: index_def Let_def)
  with assms False show ?thesis by simp
next
  case True
  show ?thesis
  proof (cases "get_by_title db (take_one_or_None (params req) ''title'')")
    case (Inl e)
    with assms True show ?thesis by (simp add: index_def Let_def)
  next
    case (Inr cur)
    show ?thesis
    proof (cases cur)
      case None
      with assms True Inr have "req' = req" by (auto simp: index_def Let_def)
      with assms True Inr None show ?thesis by simp
    next
      case (Some d)
      with assms True Inr have
        "req' = req\<lparr>SESSION := Some (s\<lparr>amount_of_viewed_pages :=
                                         amount_of_viewed_pages s + 1\<rparr>)\<rparr>"
        by (auto simp: index_def Let_def)
      with assms True Inr Some show ?thesis by simp
    qed
  qed
qed

lemma add_request_kept: "add w db req = Inr (r, db', req') \<Longrightarrow> req' = req"
  by (auto simp: add_def Let_def split: if_splits prod.splits pyval.splits)

lemma route_session_step:
  assumes "SESSION req = Some s" and "route router path db req = Inr (r, db', req')"
  shows "\<exists>s'. SESSION req' = Some s' \<and> session_id s' = session_id s
              \<and> amount_of_viewed_pages s \<le> amount_of_viewed_pages s'"
proof -
  consider "path = ''/''" | "path = ''/text''" | "path = ''/text/add''"
    | "path \<noteq> ''/''" "path \<noteq> ''/text''" "path \<noteq> ''/text/add''"
    by blast
  then show ?thesis
  proof cases
    case 1
    with assms show ?thesis by (auto simp: route_def router_paths)
  next
    case 2
    with assms have "index TextIndexView_render db req = Inr (r, db', req')"
      by (simp add: route_def router_paths)
    from index_session_step [OF assms(1) this] show ?thesis by auto
  next
    case 3
    with assms have "add RedirectView_render db req = Inr (r, db', req')"
      by (simp add: route_def router_paths)
    then have "req' = req" by (rule add_request_kept)
    with assms show ?thesis by simp
  next
    case 4
    with assms show ?thesis by (auto simp: route_def router_paths default_response_def)
  qed
qed

lemma request_cycle_monotone:
  assumes wf: "\<forall>k s. sdb k = Some s \<longrightarrow> session_id s = k"
    and fresh: "u \<notin> dom sdb"
    and g: "get_or_create u sdb sid = Inr (s0, sdb0)"
    and r: "route router path db \<lparr>params = q, SESSION = Some s0\<rparr> = Inr (r, db', req')"
    and s1: "SESSION req' = Some s1"
    and k: "sdb k = Some s"
  shows "\<exists>s'. update sdb0 s1 k = Some s'
              \<and> amount_of_viewed_pages s \<le> amount_of_viewed_pages s'"
proof -
  from route_session_step [OF _ r] s1
  have id: "session_id s1 = session_id s0"
    and le: "amount_of_viewed_pages s0 \<le> amount_of_viewed_pages s1"
    by auto
  from g consider (stored) k0 where "sid = VStr k0" "sdb k0 = Some s0" "sdb0 = sdb"
    | (new) "s0 = \<lparr>session_id = u, amount_of_viewed_pages = 0\<rparr>" "sdb0 = sdb(u \<mapsto> s0)"
    by (auto simp: get_or_create_def shelf_get_def SessionModel_init_def Let_def
             split: pyval.splits option.splits)
  then show ?thesis
  proof cases
    case stored
    with wf have "session_id s0 = k0" by blast
    with stored id le k show ?thesis
      by (cases "k = k0") (auto simp: update_def)
  next
    case new
    with fresh k have "k \<noteq> u" by auto
    with new id k show ?thesis by (auto simp: update_def)
  qed
qed

text \<open>
  C9. No exposed operation lowers the counter of a session. After \<open>index\<close> the session
  in the request is the same session with its counter either unchanged or increased by
  exactly 1, and it is increased exactly when the counter was at most 3 and a document
  was found for the title. \<open>add\<close> leaves the session in the request as it was.
  \<open>get_or_create\<close> either returns a stored session as it is stored, with the store
  unchanged, or a new session with counter 0 that it stores under the new identifier;
  with a new identifier that is not yet a key, every stored session stays as it was.
  \<open>update\<close> stores the session it is given, counter included, under its identifier and
  changes no other stored session. Hence over a request, which is \<open>get_or_create\<close>, then
  the routed handler on the request that carries the session, then \<open>update\<close> of the
  session as the handler left it, the stored counter of no session gets lower, in a store
  that keeps every session under its own identifier.
\<close>

theorem session_counter_monotone:
  "(SESSION req = Some s \<and> index v db req = Inr (r, db', req') \<longrightarrow>
      (\<exists>s'. SESSION req' = Some s' \<and> session_id s' = session_id s
         \<and> (amount_of_viewed_pages s' = amount_of_viewed_pages s
             \<or> amount_of_viewed_pages s' = amount_of_viewed_pages s + 1)
         \<and> (amount_of_viewed_pages s' = amount_of_viewed_pages s + 1 \<longleftrightarrow>
              amount_of_viewed_pages s \<le> 3
              \<and> (\<exists>d. get_by_title db (take_one_or_None (params req) ''title'')
                        = Inr (Some d)))))
   \<and> (add w db req = Inr (r, db', req') \<longrightarrow> SESSION req' = SESSION req)
   \<and> (get_or_create u sdb sid = Inr (s1, sdb') \<longrightarrow>
        (sdb' = sdb \<and> (\<exists>k. sid = VStr k \<and> sdb k = Some s1))
        \<or> (amount_of_viewed_pages s1 = 0 \<and> sdb' = sdb(u \<mapsto> s1)))
   \<and> (get_or_create u sdb sid = Inr (s1, sdb') \<and> u \<notin> dom sdb \<longrightarrow>
        (\<forall>k \<in> dom sdb. sdb' k = sdb k))
   \<and> update sdb s (session_id s) = Some s
   \<and> (\<forall>k. k \<noteq> session_id s \<longrightarrow> update sdb s k = sdb k)
   \<and> ((\<forall>k x. sdb k = Some x \<longrightarrow> session_id x = k) \<and> u \<notin> dom sdb
        \<and> get_or_create u sdb sid = Inr (s1, sdb')
        \<and> route router path db \<lparr>params = q, SESSION = Some s1\<rparr> = Inr (r, db', req')
        \<and> SESSION req' = Some s2 \<longrightarrow>
        (\<forall>k x. sdb k = Some x \<longrightarrow>
           (\<exists>x'. update sdb' s2 k = Some x'
                 \<and> amount_of_viewed_pages x \<le> amount_of_viewed_pages x')))"
proof (intro conjI impI allI)
  assume "SESSION req = Some s \<and> index v db req = Inr (r, db', req')"
  then show "\<exists>s'. SESSION req' = Some s' \<and> session_id s' = session_id s
         \<and> (amount_of_viewed_pages s' = amount_of_viewed_pages s
             \<or> amount_of_viewed_pages s' = amount_of_viewed_pages s + 1)
         \<and> (amount_of_viewed_pages s' = amount_of_viewed_pages s + 1 \<longleftrightarrow>
              amount_of_viewed_pages s \<le> 3
              \<and> (\<exists>d. get_by_title db (take_one_or_None (params req) ''title'')
                        = Inr (Some d)))"
    using index_session_step [of req s v db r db' req'] by blast
next
  assume "add w db req = Inr (r, db', req')"
  then show "SESSION req' = SESSION req"
    using add_request_kept [of w db req r db' req'] by simp
next
  assume "get_or_create u sdb sid = Inr (s1, sdb')"
  then show "(sdb' = sdb \<and> (\<exists>k. sid = VStr k \<and> sdb k = Some s1))
        \<or> (amount_of_viewed_pages s1 = 0 \<and> sdb' = sdb(u \<mapsto> s1))"
    by (auto simp: get_or_create_def shelf_get_def SessionModel_init_def Let_def
             split: pyval.splits option.splits)
next
  assume "get_or_create u sdb sid = Inr (s1, sdb') \<and> u \<notin> dom sdb"
  then show "\<forall>k \<in> dom sdb. sdb' k = sdb k"
    by (auto simp: get_or_create_def shelf_get_def SessionModel_init_def Let_def
             split: pyval.splits option.splits if_splits)
next
  show "update sdb s (session_id s) = Some s"
    by (simp add: update_def)
next
  fix k
  assume "k \<noteq> session_id s"
  then show "update sdb s k = sdb k"
    by (simp add: update_def)
next
  fix k x
  assume h: "(\<forall>k x. sdb k = Some x \<longrightarrow> session_id x = k) \<and> u \<notin> dom sdb
        \<and> get_or_create u sdb sid = Inr (s1, sdb')
        \<and> route router path db \<lparr>params = q, SESSION = Some s1\<rparr> = Inr (r, db', req')
        \<and> SESSION req' = Some s2"
    and k: "sdb k = Some x"
  from h have wf: "\<forall>k x. sdb k = Some x \<longrightarrow> session_id x = k" by blast
  from h have fresh: "u \<notin> dom sdb" by blast
  from h have g: "get_or_create u sdb sid = Inr (s1, sdb')" by blast
  from h have rt: "route router path db \<lparr>params = q, SESSION = Some s1\<rparr> = Inr (r, db', req')"
    by blast
  from h have s2: "SESSION req' = Some s2" by blast
  show "\<exists>x'. update sdb' s2 k = Some x'
             \<and> amount_of_viewed_pages x \<le> amount_of_viewed_pages x'"
    by (rule request_cycle_monotone [OF wf fresh g rt s2 k])
qed

theorem session_counter_monotone_witness:
  "(let s = \<lparr>session_id = ''u1'', amount_of_viewed_pages = 3\<rparr>;
        s' = \<lparr>session_id = ''u1'', amount_of_viewed_pages = 4\<rparr>;
        n = \<lparr>session_id = ''n9'', amount_of_viewed_pages = 0\<rparr>;
        q = [''title'' \<mapsto> VList [''Foo'']];
        req = \<lparr>params = q, SESSION = Some s\<rparr>;
        req' = \<lparr>params = q, SESSION = Some s'\<rparr>;
        db = [(''Foo'', ''Bar'')];
        page = fst (TextIndexView_render
                 \<lparr>ctx_all = get_all db,
                  ctx_current = Some \<lparr>title = ''Foo'', content = ''Bar''\<rparr>,
                  ctx_error = '''', ctx_titles = None, ctx_content = None\<rparr>);
        sdb = [''u1'' \<mapsto> s]
    in SESSION req = Some s
       \<and> index TextIndexView_render db req = Inr ((200, page), db, req')
       \<and> amount_of_viewed_pages s' = amount_of_viewed_pages s + 1
       \<and> add RedirectView_render db req
           = Inr ((200, fst (RedirectView_render ())), db, req)
       \<and> get_or_create ''n9'' sdb VNone = Inr (n, sdb(''n9'' \<mapsto> n))
       \<and> ''n9'' \<notin> dom sdb
       \<and> (\<forall>k \<in> dom sdb. (sdb(''n9'' \<mapsto> n)) k = sdb k)
       \<and> get_or_create ''n9'' sdb (VStr ''u1'') = Inr (s, sdb)
       \<and> update sdb s' ''u1'' = Some s'
       \<and> (\<forall>k x. sdb k = Some x \<longrightarrow> session_id x = k)
       \<and> route router ''/text'' db req = Inr ((200, page), db, req')
       \<and> (\<forall>k x. sdb k = Some x \<longrightarrow>
             (\<exists>x'. update sdb s' k = Some x'
                   \<and> amount_of_viewed_pages x \<le> amount_of_viewed_pages x')))"
proof -
  let ?s = "\<lparr>session_id = ''u1'', amount_of_viewed_pages = 3\<rparr>"
  let ?s' = "\<lparr>session_id = ''u1'', amount_of_viewed_pages = 4\<rparr>"
  let ?n = "\<lparr>session_id = ''n9'', amount_of_viewed_pages = 0\<rparr>"
  let ?q = "[''title'' \<mapsto> VList [''Foo'']]"
  let ?req = "\<lparr>params = ?q, SESSION = Some ?s\<rparr>"
  let ?req' = "\<lparr>params = ?q, SESSION = Some ?s'\<rparr>"
  let ?db = "[(''Foo'', ''Bar'')]"
  let ?page = "fst (TextIndexView_render
                 \<lparr>ctx_all = get_all ?db,
                  ctx_current = Some \<lparr>title = ''Foo'', content = ''Bar''\<rparr>,
                  ctx_error = '''', ctx_titles = None, ctx_content = None\<rparr>)"
  let ?sdb = "[''u1'' \<mapsto> ?s]"
  have idx: "index TextIndexView_render ?db ?req = Inr ((200, ?page), ?db, ?req')"
    by (simp add: index_def Let_def take_one_or_None_def get_by_title_def shelf_get_def)
  have rt: "route router ''/text'' ?db ?req = Inr ((200, ?page), ?db, ?req')"
    using idx by (simp add: route_def router_paths)
  have ad: "add RedirectView_render ?db ?req
              = Inr ((200, fst (RedirectView_render ())), ?db, ?req)"
    by (simp add: add_def Let_def take_one_or_None_def RedirectView_render_def)
  have new: "get_or_create ''n9'' ?sdb VNone = Inr (?n, ?sdb(''n9'' \<mapsto> ?n))"
    by (simp add: get_or_create_def shelf_get_def SessionModel_init_def Let_def)
  have old: "get_or_create ''n9'' ?sdb (VStr ''u1'') = Inr (?s, ?sdb)"
    by (simp add: get_or_create_def shelf_get_def)
  have fresh: "''n9'' \<notin> dom ?sdb"
    by simp
  have wf: "\<forall>k x. ?sdb k = Some x \<longrightarrow> session_id x = k"
    by (simp split: if_splits)
  note at_index =
    session_counter_monotone
      [where req = ?req and s = ?s and v = TextIndexView_render and db = ?db
         and r = "(200, ?page)" and db' = ?db and req' = ?req'
         and w = RedirectView_render and u = "''n9''" and sdb = ?sdb
         and sid = "VStr ''u1''" and ?s1.0 = ?s and sdb' = ?sdb
         and path = "''/text''" and q = ?q and ?s2.0 = ?s']
  note at_new =
    session_counter_monotone
      [where req = ?req and s = ?s' and v = TextIndexView_render and db = ?db
         and r = "(200, fst (RedirectView_render ()))" and db' = ?db and req' = ?req
         and w = RedirectView_render and u = "''n9''" and sdb = ?sdb
         and sid = VNone and ?s1.0 = ?n and sdb' = "?sdb(''n9'' \<mapsto> ?n)"
         and path = "''/text''" and q = ?q and ?s2.0 = ?s']
  have sess0: "SESSION ?req = Some ?s"
    by simp
  have sess: "SESSION ?req' = Some ?s'"
    by simp
  have step: "amount_of_viewed_pages ?s' = amount_of_viewed_pages ?s + 1"
    by simp
  have frame: "\<forall>k \<in> dom ?sdb. (?sdb(''n9'' \<mapsto> ?n)) k = ?sdb k"
    by (rule at_new [THEN conjunct2, THEN conjunct2, THEN conjunct2, THEN conjunct1,
                     THEN mp, OF conjI [OF new fresh]])
  have stored: "update ?sdb ?s' ''u1'' = Some ?s'"
    using at_new [THEN conjunct2, THEN conjunct2, THEN conjunct2, THEN conjunct2,
                  THEN conjunct1]
    by simp
  have cycle: "\<forall>k x. ?sdb k = Some x \<longrightarrow>
             (\<exists>x'. update ?sdb ?s' k = Some x'
                   \<and> amount_of_viewed_pages x \<le> amount_of_viewed_pages x')"
    by (rule at_index [THEN conjunct2, THEN conjunct2, THEN conjunct2, THEN conjunct2,
                       THEN conjunct2, THEN conjunct2, THEN mp,
                       OF conjI [OF wf conjI [OF fresh conjI [OF old conjI [OF rt sess]]]]])
  show ?thesis
    unfolding Let_def
    by (intro conjI) (rule sess0 idx step ad new fresh frame old stored wf rt cycle)+
qed

section \<open>The entry point and the visitor without a cookie\<close>

lemma parse_cookies_without_header:
  "environ ''HTTP_COOKIE'' = None \<Longrightarrow> parse_cookies environ = Inl KeyError"
  by (simp add: parse_cookies_def)

lemma application_new_session:
  assumes path: "environ ''PATH_INFO'' = Some path"
    and qs: "environ ''QUERY_STRING'' = Some qs"
    and cookies: "parse_cookies environ = Inr cookies"
    and sid: "take_one_or_None cookies ''session_id'' = VNone
              \<or> (\<exists>k. take_one_or_None cookies ''session_id'' = VStr k \<and> k \<notin> dom sdb)"
    and rt: "route router path db
               \<lparr>params = parse_qs qs,
                SESSION = Some \<lparr>session_id = u, amount_of_viewed_pages = 0\<rparr>\<rparr>
             = Inr ((code, body), db', req')"
  shows "\<exists>s'. application parse_qs u sdb db environ
               = Inr ((http_status code,
                       [(''Content-Type'', ''text/html''), (''Set-Cookie'', ''session_id='' @ u)],
                       [body]),
                      db', sdb(u \<mapsto> s'))
              \<and> session_id s' = u \<and> 0 \<le> amount_of_viewed_pages s'"
proof -
  let ?new = "\<lparr>session_id = u, amount_of_viewed_pages = 0\<rparr>"
  have g: "get_or_create u sdb (take_one_or_None cookies ''session_id'')
             = Inr (?new, sdb(u \<mapsto> ?new))"
    using sid
    by (auto simp: get_or_create_def shelf_get_def SessionModel_init_def Let_def dom_def
             split: option.splits)
  from route_session_step [OF _ rt, of ?new]
  obtain s' where s': "SESSION req' = Some s'" "session_id s' = u"
    "0 \<le> amount_of_viewed_pages s'"
    by auto
  have "application parse_qs u sdb db environ
               = Inr ((http_status code,
                       [(''Content-Type'', ''text/html''), (''Set-Cookie'', ''session_id='' @ u)],
                       [body]),
                      db', sdb(u \<mapsto> s'))"
    using path qs cookies g rt s'
    by (simp add: application_def Let_def update_def)
  with s' show ?thesis by blast
qed

text \<open>
  C5. The claim says that a visitor with no session cookie always receives a newly
  generated session with counter 0. \<open>get_or_create\<close> does create it when it is called
  with \<open>None\<close> or an unknown identifier, but \<open>application\<close> does not get that far for a
  request that carries no Cookie header at all: \<open>parse_cookies\<close> reads
  \<^verbatim>\<open>environ['HTTP_COOKIE']\<close>, the key is absent, and the call of \<open>application\<close> ends
  with \<^verbatim>\<open>KeyError\<close>, whatever the path, the query string and the two stores are. No
  session is created and no response is produced.
\<close>

theorem application_without_cookie_header:
  "environ ''HTTP_COOKIE'' = None \<longrightarrow> application parse_qs u sdb db environ = Inl KeyError"
  by (auto simp: application_def parse_cookies_def split: option.splits)

theorem application_without_cookie_header_witness:
  "[''PATH_INFO'' \<mapsto> ''/text'', ''QUERY_STRING'' \<mapsto> ''''] ''HTTP_COOKIE'' = None
   \<and> application (\<lambda>q. Map.empty) ''n9'' Map.empty []
         [''PATH_INFO'' \<mapsto> ''/text'', ''QUERY_STRING'' \<mapsto> ''''] = Inl KeyError"
  using application_without_cookie_header
          [of "[''PATH_INFO'' \<mapsto> ''/text'', ''QUERY_STRING'' \<mapsto> '''']"
              "\<lambda>q. Map.empty" "''n9''" Map.empty "[]"]
  by simp

text \<open>
  A visitor who sends some other cookie, and no session cookie, does receive the new
  session, with the \<^verbatim>\<open>Set-Cookie\<close> header for it.
\<close>

lemma application_with_other_cookie:
  "application (\<lambda>q. Map.empty) ''n9'' Map.empty []
     [''PATH_INFO'' \<mapsto> ''/'', ''QUERY_STRING'' \<mapsto> '''', ''HTTP_COOKIE'' \<mapsto> ''lang=en'']
   = Inr ((''200 OK'',
           [(''Content-Type'', ''text/html''), (''Set-Cookie'', ''session_id=n9'')],
           [''Index HI!'']),
          [], [''n9'' \<mapsto> \<lparr>session_id = ''n9'', amount_of_viewed_pages = 0\<rparr>])"
  by (simp add: application_def parse_cookies_def py_strip_def py_isspace_def
                take_one_or_None_def get_or_create_def shelf_get_def SessionModel_init_def
                route_def router_paths update_def http_status_def Let_def)

end
